theory Spec2Isabelle
  imports Complex_Main "HOL-Library.Multiset"
begin

section \<open>JavaScript values used by the backend models\<close>

text \<open>
  Numbers that travel through the API (ratings, effort estimates, impact scores) are
  modelled as rationals; a field that may be \<^verbatim>\<open>undefined\<close> is an option. Dates are
  milliseconds since the epoch, and \<^verbatim>\<open>new Date()\<close> is a parameter \<open>now\<close> of the operation
  that calls it. Object ids are strings.

  A JavaScript object used as a dictionary (the \<^verbatim>\<open>ratings\<close> maps, the per-status action
  buckets of a user) is an association list in key insertion order, which is the order in
  which \<^verbatim>\<open>_.each\<close>, \<^verbatim>\<open>_.keys\<close> and \<^verbatim>\<open>_.toArray\<close> visit it.
\<close>

type_synonym num = rat
type_synonym date = nat
type_synonym 'v obj = "(string \<times> 'v) list"

text \<open>Truthiness of a number-or-undefined: \<^verbatim>\<open>if (x)\<close>.\<close>

definition truthy :: "num option \<Rightarrow> bool" where
  "truthy v = (case v of None \<Rightarrow> False | Some x \<Rightarrow> x \<noteq> 0)"

text \<open>\<^verbatim>\<open>obj[k]\<close>, \<^verbatim>\<open>obj[k] = v\<close>, \<^verbatim>\<open>_.keys(obj)\<close> and \<^verbatim>\<open>_.toArray(obj)\<close>.\<close>

definition get_prop :: "'v obj \<Rightarrow> string \<Rightarrow> 'v option" where
  "get_prop ob k = map_of ob k"

fun set_prop :: "'v obj \<Rightarrow> string \<Rightarrow> 'v \<Rightarrow> 'v obj" where
  "set_prop [] k v = [(k, v)]"
| "set_prop ((k', v') # kvs) k v =
     (if k' = k then (k, v) # kvs else (k', v') # set_prop kvs k v)"

definition keys :: "'v obj \<Rightarrow> string list" where
  "keys ob = map fst ob"

definition toArray :: "'v obj \<Rightarrow> 'v list" where
  "toArray ob = map snd ob"

text \<open>
  \<^verbatim>\<open>_.each(obj, f)\<close> where \<open>f\<close> updates variables of the enclosing function: the variables
  are the state \<open>s\<close> threaded through the visits. \<^verbatim>\<open>_.each(undefined, f)\<close> visits nothing.
\<close>

definition each :: "'v obj option \<Rightarrow> ('s \<Rightarrow> 'v \<Rightarrow> 's) \<Rightarrow> 's \<Rightarrow> 's" where
  "each ob f s = (case ob of None \<Rightarrow> s | Some kvs \<Rightarrow> foldl f s (toArray kvs))"

text \<open>\<^verbatim>\<open>arr[i]\<close>: reading past the end of an array yields \<^verbatim>\<open>undefined\<close>.\<close>

definition index :: "'a option list \<Rightarrow> nat \<Rightarrow> 'a option" where
  "index arr i = (if i < length arr then arr ! i else None)"

text \<open>Errors handed to a callback: a message string, a database error object, a Mongoose
  validation error naming the offending path, or a thrown \<^verbatim>\<open>TypeError\<close> that never reaches
  the callback.\<close>

datatype error = Msg string | DbError string | ValidationError string | TypeError

section \<open>Actions (models/actions.js)\<close>

text \<open>One entry of \<^verbatim>\<open>action.ratings\<close>, keyed by the id of the user who rated.\<close>

record action_rating =
  r_rating :: "num option"
  r_effort :: "num option"
  r_name :: string
  r_date :: date

text \<open>
  An action document, together with the fields that the read operations add to the plain
  object (\<^verbatim>\<open>numLikes\<close>, \<^verbatim>\<open>userRating\<close>, \<^verbatim>\<open>numComments\<close>, \<^verbatim>\<open>numUsers\<close>). A field set to
  \<^verbatim>\<open>undefined\<close> or deleted is \<open>None\<close>.
\<close>

record action =
  a_id :: string
  a_name :: "string option"
  a_nameSe :: "string option"
  a_nameIt :: "string option"
  a_type :: "string option"
  a_category :: "string option"
  a_season :: "string option"
  a_description :: "string option"
  a_descriptionSe :: "string option"
  a_descriptionIt :: "string option"
  a_impact :: "num option"
  a_effort :: "num option"
  a_ratings :: "action_rating obj option"
  a_date :: date
  a_authorId :: string
  a_numLikes :: "nat option"
  a_userRating :: "num option"
  a_numComments :: "nat option"
  a_numUsers :: "nat option"

definition includeRatingStats :: "action \<Rightarrow> action" where
  "includeRatingStats a =
     (let sum = each (a_ratings a) (\<lambda>sum r. if truthy (r_rating r) then sum + 1 else sum) 0
      in a\<lparr>a_numLikes := Some sum\<rparr>)"

text \<open>The loop \<^verbatim>\<open>for (var i = 0; i < 5; i++) effortEstimates.push(action.effort)\<close>.\<close>

function seedEstimates :: "nat \<Rightarrow> num option \<Rightarrow> num option list \<Rightarrow> num option list" where
  "seedEstimates i e est = (if i < 5 then seedEstimates (i + 1) e (est @ [e]) else est)"
  by pat_completeness auto
termination
  by (relation "measure (\<lambda>(i, e, est). 5 - i)") auto

declare seedEstimates.simps [simp del]

definition pushEffort :: "num option list \<Rightarrow> action_rating \<Rightarrow> num option list" where
  "pushEffort est r = (if truthy (r_effort r) then est @ [r_effort r] else est)"

definition effortEstimates :: "action \<Rightarrow> num option list" where
  "effortEstimates a = each (a_ratings a) pushEffort (seedEstimates 0 (a_effort a) [])"

text \<open>\<^verbatim>\<open>parseInt(effortEstimates.length / 2)\<close> is the integer part of half the length.\<close>

definition includeMeanEffort :: "action \<Rightarrow> action" where
  "includeMeanEffort a =
     (let est = effortEstimates a
      in a\<lparr>a_effort := index est (length est div 2)\<rparr>)"


section \<open>Collections and queries\<close>

text \<open>
  A MongoDB collection is the list of its documents. The driver can fail a read or a write;
  the error it would report is part of the state (\<open>None\<close>: the operation succeeds).
\<close>

record 'a collection =
  docs :: "'a list"
  readErr :: "string option"
  writeErr :: "string option"

text \<open>\<^verbatim>\<open>Model.find(q).exec(cb)\<close> and \<^verbatim>\<open>Model.findOne(q, cb)\<close>: the arguments of the callback.\<close>

definition find_docs :: "'a collection \<Rightarrow> ('a \<Rightarrow> bool) \<Rightarrow> error + 'a list" where
  "find_docs coll q =
     (case readErr coll of Some e \<Rightarrow> Inl (DbError e) | None \<Rightarrow> Inr (filter q (docs coll)))"

definition findOne :: "'a collection \<Rightarrow> ('a \<Rightarrow> bool) \<Rightarrow> error + 'a option" where
  "findOne coll q =
     (case readErr coll of Some e \<Rightarrow> Inl (DbError e) | None \<Rightarrow> Inr (List.find q (docs coll)))"

text \<open>\<^verbatim>\<open>doc.save(cb)\<close>: the stored document with the same \<^verbatim>\<open>_id\<close> is replaced.\<close>

definition save :: "'a collection \<Rightarrow> ('a \<Rightarrow> string) \<Rightarrow> 'a \<Rightarrow> error + 'a collection" where
  "save coll ident d =
     (case writeErr coll of
        Some e \<Rightarrow> Inl (DbError e)
      | None \<Rightarrow> Inr (coll\<lparr>docs := map (\<lambda>x. if ident x = ident d then d else x) (docs coll)\<rparr>))"

text \<open>
  \<^verbatim>\<open>.sort({'date': -1}).skip(skip).limit(limit)\<close>. A \<^verbatim>\<open>null\<close> skip or limit is \<open>None\<close>; MongoDB
  reads a limit of 0 as no limit. Documents with equal dates come in the order the model's
  sort leaves them.
\<close>

definition sortByDateDesc :: "('a \<Rightarrow> date) \<Rightarrow> 'a list \<Rightarrow> 'a list" where
  "sortByDateDesc d xs = rev (sort_key d xs)"

definition skip :: "nat option \<Rightarrow> 'a list \<Rightarrow> 'a list" where
  "skip n xs = (case n of None \<Rightarrow> xs | Some k \<Rightarrow> drop k xs)"

definition limit :: "nat option \<Rightarrow> 'a list \<Rightarrow> 'a list" where
  "limit n xs = (case n of None \<Rightarrow> xs | Some k \<Rightarrow> if k = 0 then xs else take k xs)"

section \<open>Users\<close>

text \<open>
  The part of a user document that the modelled code reads: the id, the profile (name,
  language, rehearsal settings) and the five buckets of actions keyed by action id.
\<close>

record toRehearse =
  tr_done :: bool
  tr_declined :: bool
  tr_na :: bool

record profile =
  p_name :: "string option"
  p_language :: "string option"
  p_toRehearse :: toRehearse

record user_action =
  ua_id :: string
  ua_latestDate :: date

record user_actions =
  acts_done :: "user_action obj"
  acts_declined :: "user_action obj"
  acts_na :: "user_action obj"
  acts_pending :: "user_action obj"
  acts_inProgress :: "user_action obj"

record user =
  u_id :: string
  u_email :: string
  u_profile :: "profile option"
  u_actions :: user_actions

text \<open>\<^verbatim>\<open>user.profile && user.profile.language === lang\<close>.\<close>

definition hasLanguage :: "user \<Rightarrow> string \<Rightarrow> bool" where
  "hasLanguage u lang = (case u_profile u of None \<Rightarrow> False | Some p \<Rightarrow> p_language p = Some lang)"

section \<open>Action comments (models/actionComments.js)\<close>

record comment_rating =
  cr_value :: "num option"
  cr_date :: date

record aComment =
  c_id :: string
  c_actionId :: string
  c_userId :: string
  c_name :: string
  c_email :: string
  c_comment :: string
  c_date :: date
  c_hasPicture :: bool
  c_ratings :: "comment_rating obj option"
  c_numLikes :: "nat option"
  c_userRating :: "num option"

text \<open>\<^verbatim>\<open>String(userId)\<close> for an id or \<^verbatim>\<open>null\<close>.\<close>

definition String :: "string option \<Rightarrow> string" where
  "String v = (case v of None \<Rightarrow> ''null'' | Some s \<Rightarrow> s)"

definition calcRating :: "aComment \<Rightarrow> string option \<Rightarrow> aComment" where
  "calcRating c userId =
     (let totalRating =
            each (c_ratings c) (\<lambda>total r. if truthy (cr_value r) then total + 1 else total) 0;
          c1 = c\<lparr>c_numLikes := Some totalRating\<rparr>;
          uid = String userId;
          c2 = (if uid \<noteq> [] then
                  (case c_ratings c1 of
                     None \<Rightarrow> c1
                   | Some rs \<Rightarrow>
                       (case get_prop rs uid of
                          None \<Rightarrow> c1
                        | Some r \<Rightarrow> c1\<lparr>c_userRating := cr_value r\<rparr>))
                else c1)
      in c2\<lparr>c_ratings := None\<rparr>)"

text \<open>\<^verbatim>\<open>exports.get(actionId, limit, skip, user, cb)\<close> and \<^verbatim>\<open>exports.getByUser\<close>.\<close>

definition actionComments_get ::
  "aComment collection \<Rightarrow> string \<Rightarrow> nat option \<Rightarrow> nat option \<Rightarrow> user option \<Rightarrow> error + aComment list"
where
  "actionComments_get coll actionId lmt skp usr =
     (case find_docs coll (\<lambda>c. c_actionId c = actionId) of
        Inl err \<Rightarrow> Inl err
      | Inr found \<Rightarrow>
          (let aComments = limit lmt (skip skp (sortByDateDesc c_date found))
           in if aComments = [] then Inr []
              else Inr (map (\<lambda>c. calcRating c (map_option u_id usr)) aComments)))"


text \<open>
  \<^verbatim>\<open>exports.rate(actionId, commentId, user, rating, cb)\<close>. The rating sent by the client is a
  number or missing. The result is the argument pair of the callback together with the
  collection after the call.
\<close>

definition actionComments_rate ::
  "aComment collection \<Rightarrow> string \<Rightarrow> string \<Rightarrow> user option \<Rightarrow> num option \<Rightarrow> date \<Rightarrow>
     (error + aComment) \<times> aComment collection"
where
  "actionComments_rate coll actionId commentId usr rating now =
     (case usr of
        None \<Rightarrow> (Inl (Msg ''Missing/invalid user''), coll)
      | Some u \<Rightarrow>
          if u_id u = [] then (Inl (Msg ''Missing/invalid user''), coll)
          else
            (case rating of
               None \<Rightarrow> (Inl (Msg ''Missing/invalid rating''), coll)
             | Some rt \<Rightarrow>
                 (case findOne coll (\<lambda>c. c_actionId c = actionId \<and> c_id c = commentId) of
                    Inl err \<Rightarrow> (Inl err, coll)
                  | Inr None \<Rightarrow> (Inl (Msg ''Action comment not found''), coll)
                  | Inr (Some c) \<Rightarrow>
                      if rt \<noteq> 0 \<and> rt \<noteq> 1
                      then (Inl (Msg ''invalid rating! should be 0 or 1''), coll)
                      else
                        (case c_ratings c of
                           None \<Rightarrow> (Inl TypeError, coll)
                         | Some rs \<Rightarrow>
                             (let c' = c\<lparr>c_ratings :=
                                    Some (set_prop rs (u_id u) \<lparr>cr_value = Some rt, cr_date = now\<rparr>)\<rparr>
                              in case save coll c_id c' of
                                   Inl err \<Rightarrow> (Inl err, coll)
                                 | Inr coll' \<Rightarrow> (Inr (calcRating c' (Some (u_id u))), coll'))))))"

section \<open>Action operations (models/actions.js)\<close>

text \<open>\<^verbatim>\<open>a || b\<close> on optional strings: the empty string is falsy.\<close>

definition orElse :: "string option \<Rightarrow> string option \<Rightarrow> string option" where
  "orElse a b = (case a of None \<Rightarrow> b | Some s \<Rightarrow> if s \<noteq> [] then Some s else b)"

text \<open>
  \<^verbatim>\<open>exports.get(id, user, cb)\<close>. Reading \<^verbatim>\<open>user.profile\<close> of a missing user throws. The
  rating map stays on the object that is handed to the callback.
\<close>

definition action_get ::
  "action collection \<Rightarrow> aComment collection \<Rightarrow> user collection \<Rightarrow> string \<Rightarrow> user option \<Rightarrow>
     error + action"
where
  "action_get actions comments users ident usr =
     (case findOne actions (\<lambda>a. a_id a = ident) of
        Inl err \<Rightarrow> Inl err
      | Inr None \<Rightarrow> Inl (Msg ''Action not found'')
      | Inr (Some a0) \<Rightarrow>
          (case usr of
             None \<Rightarrow> Inl TypeError
           | Some u \<Rightarrow>
               (let a1 = (if hasLanguage u ''Italian''
                          then a0\<lparr>a_name := orElse (a_nameIt a0) (a_name a0),
                                  a_description := orElse (a_descriptionIt a0) (a_description a0)\<rparr>
                          else if hasLanguage u ''Swedish''
                          then a0\<lparr>a_name := orElse (a_nameSe a0) (a_name a0),
                                  a_description := orElse (a_descriptionSe a0) (a_description a0)\<rparr>
                          else a0);
                    a2 = a1\<lparr>a_nameIt := None, a_nameSe := None,
                            a_descriptionSe := None, a_descriptionIt := None\<rparr>;
                    a3 = includeMeanEffort (includeRatingStats a2);
                    a4 = (case a_ratings a3 of
                            None \<Rightarrow> a3
                          | Some rs \<Rightarrow>
                              (case get_prop rs (u_id u) of
                                 None \<Rightarrow> a3
                               | Some r \<Rightarrow> a3\<lparr>a_userRating := r_rating r\<rparr>))
                in case actionComments_get comments ident None None None of
                     Inl err \<Rightarrow> Inl err
                   | Inr aComments \<Rightarrow>
                       (let a5 = a4\<lparr>a_numComments := Some (length aComments)\<rparr>
                        in case find_docs users
                                  (\<lambda>x. get_prop (acts_inProgress (u_actions x)) ident \<noteq> None \<or>
                                       get_prop (acts_done (u_actions x)) ident \<noteq> None) of
                             Inl err \<Rightarrow> Inl err
                           | Inr us \<Rightarrow> Inr (a5\<lparr>a_numUsers := Some (length us)\<rparr>)))))"


text \<open>
  \<^verbatim>\<open>parseInt(x)\<close> of a number drops the fraction. (For numbers whose decimal form needs an
  exponent \<^verbatim>\<open>parseInt\<close> reads only the mantissa; \<^verbatim>\<open>exports.rate\<close> calls it on validated
  values between 0 and 5 only.)
\<close>

definition parseInt :: "num \<Rightarrow> num" where
  "parseInt x = of_int (if 0 \<le> x then \<lfloor>x\<rfloor> else \<lceil>x\<rceil>)"

text \<open>\<^verbatim>\<open>!user._id || !user.profile || !user.profile.name\<close>: the name of a valid user.\<close>

definition validUserName :: "user \<Rightarrow> string option" where
  "validUserName u =
     (if u_id u = [] then None
      else (case u_profile u of
              None \<Rightarrow> None
            | Some p \<Rightarrow>
                (case p_name p of None \<Rightarrow> None | Some n \<Rightarrow> if n = [] then None else Some n)))"

text \<open>The tail of \<^verbatim>\<open>exports.rate\<close>: write the entry under the user's id and save.\<close>

definition storeRating ::
  "action collection \<Rightarrow> action \<Rightarrow> action_rating obj \<Rightarrow> string \<Rightarrow> string \<Rightarrow>
     num option \<Rightarrow> num option \<Rightarrow> num option \<Rightarrow> num option \<Rightarrow> date \<Rightarrow>
     (error + action) \<times> action collection"
where
  "storeRating actions a rs uid userName rating effort oldRating oldEffort now =
     (let entry = \<lparr>r_rating = (case rating of Some r \<Rightarrow> Some (parseInt r) | None \<Rightarrow> oldRating),
                    r_effort = (case effort of Some e \<Rightarrow> Some (parseInt e) | None \<Rightarrow> oldEffort),
                    r_name = userName,
                    r_date = now\<rparr>;
          a' = a\<lparr>a_ratings := Some (set_prop rs uid entry)\<rparr>
      in case save actions a_id a' of
           Inl err \<Rightarrow> (Inl err, actions)
         | Inr actions' \<Rightarrow> (Inr a', actions'))"

text \<open>
  \<^verbatim>\<open>exports.rate(id, user, rating, effort, cb)\<close>. The rating and the effort sent by the
  client are numbers or missing (a comparison with \<^verbatim>\<open>undefined\<close> is false).
\<close>

definition action_rate ::
  "action collection \<Rightarrow> string \<Rightarrow> user option \<Rightarrow> num option \<Rightarrow> num option \<Rightarrow> date \<Rightarrow>
     (error + action) \<times> action collection"
where
  "action_rate actions ident usr rating effort now =
     (case usr of
        None \<Rightarrow> (Inl (Msg ''Missing/invalid user''), actions)
      | Some u \<Rightarrow>
          (case validUserName u of
             None \<Rightarrow> (Inl (Msg ''Missing/invalid user''), actions)
           | Some userName \<Rightarrow>
               (case findOne actions (\<lambda>a. a_id a = ident) of
                  Inl err \<Rightarrow> (Inl err, actions)
                | Inr None \<Rightarrow> (Inl (Msg ''Action not found''), actions)
                | Inr (Some a) \<Rightarrow>
                    (case a_ratings a of
                       None \<Rightarrow> (Inl TypeError, actions)
                     | Some rs \<Rightarrow>
                         (case get_prop rs (u_id u) of
                            Some old \<Rightarrow>
                              if (case rating of None \<Rightarrow> False | Some r \<Rightarrow> r \<noteq> 1 \<and> r \<noteq> 0)
                              then (Inl (Msg ''Invalid rating estimate''), actions)
                              else if (case effort of None \<Rightarrow> False | Some e \<Rightarrow> e < 1 \<or> e > 5)
                              then (Inl (Msg ''Invalid effort estimate''), actions)
                              else storeRating actions a rs (u_id u) userName rating effort
                                     (r_rating old) (r_effort old) now
                          | None \<Rightarrow>
                              if (case rating of None \<Rightarrow> False | Some r \<Rightarrow> r \<noteq> 1 \<and> r \<noteq> 0)
                              then (Inl (Msg ''Missing/invalid rating''), actions)
                              else if (case effort of None \<Rightarrow> False | Some e \<Rightarrow> e < 1 \<or> e > 5)
                              then (Inl (Msg ''Missing/invalid effort estimate''), actions)
                              else storeRating actions a rs (u_id u) userName rating effort
                                     None None now)))))"

subsection \<open>Suggested actions\<close>

text \<open>
  \<^verbatim>\<open>shuffleArray\<close>: the loop runs \<open>i\<close> from the last index down to 1 and swaps element \<open>i\<close>
  with element \<open>j = Math.floor(Math.random() * (i + 1))\<close>, some index between 0 and \<open>i\<close>.
  The draws come from a function \<open>rnd\<close>; the draw of round \<open>i\<close> is \<open>rnd i mod (i + 1)\<close>, so
  that every choice the generator can make is made by some \<open>rnd\<close>.
\<close>

function shuffleLoop :: "(nat \<Rightarrow> nat) \<Rightarrow> nat \<Rightarrow> 'a list \<Rightarrow> 'a list" where
  "shuffleLoop rnd i array =
     (if i > 0
      then (let j = rnd i mod (i + 1);
                temp = array ! i;
                array1 = array[i := array ! j];
                array2 = array1[j := temp]
            in shuffleLoop rnd (i - 1) array2)
      else array)"
  by pat_completeness auto
termination
  by (relation "measure (\<lambda>(rnd, i, array). i)") auto

declare shuffleLoop.simps [simp del]

definition shuffleArray :: "(nat \<Rightarrow> nat) \<Rightarrow> 'a list \<Rightarrow> 'a list" where
  "shuffleArray rnd array = shuffleLoop rnd (length array - 1) array"

text \<open>
  The documents that \<^verbatim>\<open>.select(...)\<close> returns: the id and the selected fields, to which the
  loop after the query adds \<^verbatim>\<open>name\<close> and \<^verbatim>\<open>description\<close>.
\<close>

record selected =
  s_id :: string
  s_name :: "string option"
  s_description :: "string option"
  s_nameIt :: "string option"
  s_descriptionIt :: "string option"
  s_nameSe :: "string option"
  s_descriptionSe :: "string option"
  s_impact :: "num option"
  s_effort :: "num option"

definition selectIt :: "action \<Rightarrow> selected" where
  "selectIt a = \<lparr>s_id = a_id a, s_name = None, s_description = None,
                 s_nameIt = a_nameIt a, s_descriptionIt = a_descriptionIt a,
                 s_nameSe = None, s_descriptionSe = None,
                 s_impact = a_impact a, s_effort = a_effort a\<rparr>"

definition selectSe :: "action \<Rightarrow> selected" where
  "selectSe a = \<lparr>s_id = a_id a, s_name = None, s_description = None,
                 s_nameIt = None, s_descriptionIt = None,
                 s_nameSe = a_nameSe a, s_descriptionSe = a_descriptionSe a,
                 s_impact = a_impact a, s_effort = a_effort a\<rparr>"

definition selectEn :: "action \<Rightarrow> selected" where
  "selectEn a = \<lparr>s_id = a_id a, s_name = a_name a, s_description = a_description a,
                 s_nameIt = None, s_descriptionIt = None,
                 s_nameSe = None, s_descriptionSe = None,
                 s_impact = a_impact a, s_effort = a_effort a\<rparr>"

text \<open>The five \<^verbatim>\<open>{_id: {$nin: _.keys(userActions.<bucket>)}}\<close> clauses.\<close>

definition ninBuckets :: "user_actions \<Rightarrow> string \<Rightarrow> bool" where
  "ninBuckets userActions ident =
     (ident \<notin> set (keys (acts_done userActions)) \<and>
      ident \<notin> set (keys (acts_declined userActions)) \<and>
      ident \<notin> set (keys (acts_na userActions)) \<and>
      ident \<notin> set (keys (acts_pending userActions)) \<and>
      ident \<notin> set (keys (acts_inProgress userActions)))"

text \<open>\<^verbatim>\<open>if (actions.length > 5) actions = shuffleArray(actions).slice(0, 5)\<close>.\<close>

definition shuffleAndCap :: "(nat \<Rightarrow> nat) \<Rightarrow> 'a list \<Rightarrow> 'a list" where
  "shuffleAndCap rnd actions =
     (if length actions > 5 then take 5 (shuffleArray rnd actions) else actions)"

definition getSuggested :: "(nat \<Rightarrow> nat) \<Rightarrow> action collection \<Rightarrow> user \<Rightarrow> error + selected list" where
  "getSuggested rnd coll usr =
     (let userActions = u_actions usr
      in if hasLanguage usr ''Italian'' then
           (case find_docs coll (\<lambda>a. ninBuckets userActions (a_id a) \<and> a_nameIt a \<noteq> None) of
              Inl err \<Rightarrow> Inl err
            | Inr found \<Rightarrow>
                Inr (map (\<lambda>s. s\<lparr>s_name := s_nameIt s, s_description := s_descriptionIt s,
                                 s_nameIt := None, s_descriptionIt := None\<rparr>)
                       (shuffleAndCap rnd (map selectIt found))))
         else if hasLanguage usr ''Swedish'' then
           (case find_docs coll (\<lambda>a. ninBuckets userActions (a_id a) \<and> a_nameSe a \<noteq> None) of
              Inl err \<Rightarrow> Inl err
            | Inr found \<Rightarrow>
                Inr (map (\<lambda>s. s\<lparr>s_name := s_nameSe s, s_description := s_descriptionSe s,
                                 s_nameSe := None, s_descriptionSe := None\<rparr>)
                       (shuffleAndCap rnd (map selectSe found))))
         else
           (case find_docs coll (\<lambda>a. ninBuckets userActions (a_id a)) of
              Inl err \<Rightarrow> Inl err
            | Inr found \<Rightarrow> Inr (shuffleAndCap rnd (map selectEn found))))"

section \<open>Cooperatives (models/cooperatives.js)\<close>

record meters =
  m_electricity :: "string option"
  m_heating :: "string option"

text \<open>An element of the embedded \<^verbatim>\<open>actions\<close> array; Mongoose gives each one an \<^verbatim>\<open>_id\<close>.\<close>

record coop_action =
  ca_id :: string
  ca_name :: "string option"
  ca_description :: "string option"
  ca_date :: "date option"

record cooperative =
  co_id :: string
  co_name :: string
  co_yearOfConst :: num
  co_area :: num
  co_meters :: "meters option"
  co_actions :: "coop_action list"

text \<open>The object a client sends to create a cooperative, and the one it sends for an action.\<close>

record cooperative_input =
  ci_name :: "string option"
  ci_yearOfConst :: "num option"
  ci_area :: "num option"
  ci_meters :: "meters option"
  ci_actions :: "coop_action list option"


text \<open>
  \<^verbatim>\<open>exports.create\<close> hands \<^verbatim>\<open>Cooperative.create\<close> an object with the three fields \<^verbatim>\<open>name\<close>,
  \<^verbatim>\<open>yearOfConst\<close> and \<^verbatim>\<open>area\<close>. Mongoose checks the \<^verbatim>\<open>required\<close> paths of the schema, the
  unique index on \<^verbatim>\<open>name\<close> rejects a duplicate, the array path \<^verbatim>\<open>actions\<close> starts empty and
  the document gets the fresh id \<open>newId\<close>.
\<close>

definition cooperative_create ::
  "cooperative collection \<Rightarrow> cooperative_input \<Rightarrow> string \<Rightarrow>
     (error + cooperative) \<times> cooperative collection"
where
  "cooperative_create coll cooperative newId =
     (let name = ci_name cooperative;
          yearOfConst = ci_yearOfConst cooperative;
          area = ci_area cooperative
      in case name of
           None \<Rightarrow> (Inl (ValidationError ''name''), coll)
         | Some n \<Rightarrow>
             if n = [] then (Inl (ValidationError ''name''), coll)
             else
               (case yearOfConst of
                  None \<Rightarrow> (Inl (ValidationError ''yearOfConst''), coll)
                | Some y \<Rightarrow>
                    (case area of
                       None \<Rightarrow> (Inl (ValidationError ''area''), coll)
                     | Some ar \<Rightarrow>
                         (case writeErr coll of
                            Some e \<Rightarrow> (Inl (DbError e), coll)
                          | None \<Rightarrow>
                              if n \<in> set (map co_name (docs coll))
                              then (Inl (DbError ''E11000 duplicate key''), coll)
                              else
                                (let doc = \<lparr>co_id = newId, co_name = n, co_yearOfConst = y,
                                            co_area = ar, co_meters = None, co_actions = []\<rparr>
                                 in (Inr doc, coll\<lparr>docs := docs coll @ [doc]\<rparr>))))))"







section \<open>Community comments (models/communityComments.js)\<close>

record communityComment =
  cc_id :: string
  cc_communityId :: string
  cc_userId :: string
  cc_name :: string
  cc_email :: string
  cc_comment :: string
  cc_date :: date

text \<open>The object built from the request body that the route hands to \<^verbatim>\<open>exports.create\<close>.\<close>

record comment_body =
  b_communityId :: "string option"
  b_actionId :: "string option"
  b_userId :: "string option"
  b_name :: "string option"
  b_email :: "string option"
  b_comment :: "string option"

text \<open>A \<^verbatim>\<open>required\<close> path of the schema: missing or empty values fail validation.\<close>

definition required :: "string \<Rightarrow> string option \<Rightarrow> error + string" where
  "required path v =
     (case v of
        None \<Rightarrow> Inl (ValidationError path)
      | Some s \<Rightarrow> if s = [] then Inl (ValidationError path) else Inr s)"

text \<open>\<^verbatim>\<open>exports.create(communityComment, cb)\<close>; \<open>newId\<close> is the fresh id of the document.\<close>

definition communityComments_create ::
  "communityComment collection \<Rightarrow> comment_body \<Rightarrow> string \<Rightarrow> date \<Rightarrow>
     (error + communityComment) \<times> communityComment collection"
where
  "communityComments_create coll communityComment newId now =
     (case required ''communityId'' (b_communityId communityComment) of
        Inl err \<Rightarrow> (Inl err, coll)
      | Inr communityId \<Rightarrow>
     (case required ''userId'' (b_userId communityComment) of
        Inl err \<Rightarrow> (Inl err, coll)
      | Inr userId \<Rightarrow>
     (case required ''name'' (b_name communityComment) of
        Inl err \<Rightarrow> (Inl err, coll)
      | Inr name \<Rightarrow>
     (case required ''email'' (b_email communityComment) of
        Inl err \<Rightarrow> (Inl err, coll)
      | Inr email \<Rightarrow>
     (case required ''comment'' (b_comment communityComment) of
        Inl err \<Rightarrow> (Inl err, coll)
      | Inr comment \<Rightarrow>
     (case writeErr coll of
        Some e \<Rightarrow> (Inl (DbError e), coll)
      | None \<Rightarrow>
          (let doc = \<lparr>cc_id = newId, cc_communityId = communityId, cc_userId = userId,
                      cc_name = name, cc_email = email, cc_comment = comment, cc_date = now\<rparr>
           in (Inr doc, coll\<lparr>docs := docs coll @ [doc]\<rparr>))))))))"

section \<open>Community routes (routes/community.js)\<close>

text \<open>
  A request carries the path parameters, the authenticated user and the body. A response
  is a status code with what was sent. Each handler also returns the entries it logs
  (category and type; the data field is left out).
\<close>

record 'b request =
  rq_params :: "string obj"
  rq_user :: user
  rq_body :: 'b

datatype 'a payload = Text string | Json 'a | Failure error

record 'a response =
  status :: nat
  payload :: "'a payload"

record log_entry =
  l_userId :: string
  l_category :: string
  l_type :: string

text \<open>
  Modelled from the spec: \<^verbatim>\<open>res.successRes\<close> is installed by the application setup, which is
  not among the sources. The spec says that errors are returned as messages with HTTP 500;
  a result without error is sent as JSON with status 200.
\<close>

definition successRes :: "error + 'a \<Rightarrow> 'a response" where
  "successRes r =
     (case r of
        Inl err \<Rightarrow> \<lparr>status = 500, payload = Failure err\<rparr>
      | Inr json \<Rightarrow> \<lparr>status = 200, payload = Json json\<rparr>)"

text \<open>\<^verbatim>\<open>isMongoId\<close> of the validator library: 24 hexadecimal digits.\<close>

definition isHexDigit :: "char \<Rightarrow> bool" where
  "isHexDigit c = (c \<in> set ''0123456789abcdefABCDEF'')"

definition isMongoId :: "string \<Rightarrow> bool" where
  "isMongoId s = (length s = 24 \<and> list_all isHexDigit s)"

record verror =
  ve_param :: string
  ve_msg :: string
  ve_value :: "string option"

text \<open>
  \<^verbatim>\<open>req.checkParams(name, msg).isMongoId(); err = req.validationErrors()\<close>: the errors (a
  truthy \<open>err\<close>), or the value of the parameter when there is none.
\<close>

definition validateId :: "string obj \<Rightarrow> string \<Rightarrow> string \<Rightarrow> verror list + string" where
  "validateId params name msg =
     (case get_prop params name of
        None \<Rightarrow> Inl [\<lparr>ve_param = name, ve_msg = msg, ve_value = None\<rparr>]
      | Some v \<Rightarrow>
          if isMongoId v then Inr v
          else Inl [\<lparr>ve_param = name, ve_msg = msg, ve_value = Some v\<rparr>])"

text \<open>\<^verbatim>\<open>res.status(500).send('There have been validation errors: ' + util.inspect(err))\<close>;
  \<^verbatim>\<open>util.inspect\<close> is the parameter \<open>inspect\<close>.\<close>

definition validationMessage :: "(verror list \<Rightarrow> string) \<Rightarrow> verror list \<Rightarrow> string" where
  "validationMessage inspect err = ''There have been validation errors: '' @ inspect err"

definition logEntry :: "'b request \<Rightarrow> string \<Rightarrow> string \<Rightarrow> log_entry" where
  "logEntry req category type =
     \<lparr>l_userId = u_id (rq_user req), l_category = category, l_type = type\<rparr>"

text \<open>
  \<^verbatim>\<open>router.post('/:communityId/comment')\<close>. The only path parameter of the route is
  \<^verbatim>\<open>communityId\<close>. Reading \<^verbatim>\<open>req.user.profile.name\<close> of a user without profile throws, which
  the framework answers with status 500.
\<close>

definition post_comment ::
  "communityComment collection \<Rightarrow> comment_body request \<Rightarrow> string \<Rightarrow> date \<Rightarrow>
     (communityComment response \<times> log_entry list) \<times> communityComment collection"
where
  "post_comment coll req newId now =
     (case u_profile (rq_user req) of
        None \<Rightarrow> ((\<lparr>status = 500, payload = Failure TypeError\<rparr>, []), coll)
      | Some p \<Rightarrow>
          (let communityComment =
                 (rq_body req)\<lparr>b_actionId := get_prop (rq_params req) ''actionId'',
                               b_userId := Some (u_id (rq_user req)),
                               b_name := p_name p,
                               b_email := Some (u_email (rq_user req))\<rparr>;
               created = communityComments_create coll communityComment newId now
           in ((successRes (fst created), [logEntry req ''Community Comments'' ''create'']),
               snd created)))"

text \<open>
  The routes that validate an id. The community model and the picture upload are not among
  the sources; each handler takes the model operation it delegates to as a function that
  returns the arguments of the callback.
\<close>

definition get_community ::
  "(verror list \<Rightarrow> string) \<Rightarrow> (string \<Rightarrow> error + 'c) \<Rightarrow> 'b request \<Rightarrow> 'c response \<times> log_entry list"
where
  "get_community inspect getCommunityInfo req =
     (case validateId (rq_params req) ''id'' ''Invalid community id'' of
        Inl err \<Rightarrow> (\<lparr>status = 500, payload = Text (validationMessage inspect err)\<rparr>, [])
      | Inr ident \<Rightarrow> (successRes (getCommunityInfo ident), [logEntry req ''Community'' ''get'']))"

definition delete_community ::
  "(verror list \<Rightarrow> string) \<Rightarrow> (string \<Rightarrow> error + 'c) \<Rightarrow> 'b request \<Rightarrow> 'c response \<times> log_entry list"
where
  "delete_community inspect community_delete req =
     (case validateId (rq_params req) ''id'' ''Invalid Community id'' of
        Inl err \<Rightarrow> (\<lparr>status = 500, payload = Text (validationMessage inspect err)\<rparr>, [])
      | Inr ident \<Rightarrow> (successRes (community_delete ident), [logEntry req ''Community'' ''delete'']))"

definition top_actions ::
  "(verror list \<Rightarrow> string) \<Rightarrow> (string \<Rightarrow> nat option \<Rightarrow> error + 'c) \<Rightarrow> nat option request \<Rightarrow>
     'c response \<times> log_entry list"
where
  "top_actions inspect topActions req =
     (case validateId (rq_params req) ''id'' ''Invalid Community id'' of
        Inl err \<Rightarrow> (\<lparr>status = 500, payload = Text (validationMessage inspect err)\<rparr>, [])
      | Inr ident \<Rightarrow>
          (successRes (topActions ident (rq_body req)), [logEntry req ''Community'' ''top'']))"

definition rate_community ::
  "(verror list \<Rightarrow> string) \<Rightarrow> (string \<Rightarrow> user \<Rightarrow> 'b \<Rightarrow> error + 'c) \<Rightarrow> 'b request \<Rightarrow>
     'c response \<times> log_entry list"
where
  "rate_community inspect community_rate req =
     (case validateId (rq_params req) ''id'' ''Invalid community id'' of
        Inl err \<Rightarrow> (\<lparr>status = 500, payload = Text (validationMessage inspect err)\<rparr>, [])
      | Inr ident \<Rightarrow>
          (successRes (community_rate ident (rq_user req) (rq_body req)),
           [logEntry req ''Community'' ''rate'']))"

text \<open>\<^verbatim>\<open>router.post('/communityPicture/:communityId')\<close> reports a validation error through
  \<^verbatim>\<open>res.successRes\<close> and returns.\<close>

definition community_picture ::
  "(verror list \<Rightarrow> string) \<Rightarrow> (string \<Rightarrow> error + 'c) \<Rightarrow> 'b request \<Rightarrow> 'c response \<times> log_entry list"
where
  "community_picture inspect uploadPicture req =
     (case validateId (rq_params req) ''communityId'' ''Invalid Community id'' of
        Inl err \<Rightarrow> (successRes (Inl (Msg (validationMessage inspect err))), [])
      | Inr communityId \<Rightarrow>
          (successRes (uploadPicture communityId), [logEntry req ''Community Picture'' ''create'']))"

text \<open>
  Modelled from the spec: \<^verbatim>\<open>achievements.updateAchievement\<close> (common/achievements.js) is not
  among the sources. The spec describes it as the helper that updates a progress counter on
  a user profile: the counter named \<open>name\<close> becomes the value that the update function gives
  for its old value.
\<close>

definition updateAchievement :: "(string \<Rightarrow> nat) \<Rightarrow> string \<Rightarrow> (nat \<Rightarrow> nat) \<Rightarrow> (string \<Rightarrow> nat)" where
  "updateAchievement achievements name f = achievements(name := f (achievements name))"

text \<open>
  \<^verbatim>\<open>router.put('/join/:id')\<close>. The achievement counters of the requesting user are threaded
  through the handler. The error of \<^verbatim>\<open>getUserCommunities\<close> is ignored by its callback, and
  with an error there is no list whose length could be taken: the counters stay as they are.
\<close>

definition join_community ::
  "(verror list \<Rightarrow> string) \<Rightarrow> (string \<Rightarrow> string \<Rightarrow> error + 'c) \<Rightarrow> (string \<Rightarrow> error + 'd list) \<Rightarrow>
     'b request \<Rightarrow> (string \<Rightarrow> nat) \<Rightarrow> ('c response \<times> log_entry list) \<times> (string \<Rightarrow> nat)"
where
  "join_community inspect addMember getUserCommunities req achievements =
     (case validateId (rq_params req) ''id'' ''Invalid Community id'' of
        Inl err \<Rightarrow>
          ((\<lparr>status = 500, payload = Text (validationMessage inspect err)\<rparr>, []), achievements)
      | Inr ident \<Rightarrow>
          (let joined = addMember ident (u_id (rq_user req));
               achievements' =
                 (case joined of
                    Inl err \<Rightarrow> achievements
                  | Inr community \<Rightarrow>
                      (case getUserCommunities (u_id (rq_user req)) of
                         Inl err \<Rightarrow> achievements
                       | Inr communities \<Rightarrow>
                           updateAchievement achievements ''communitiesJoined''
                             (\<lambda>oldVal. max oldVal (length communities))))
           in ((successRes joined, [logEntry req ''Community'' ''join'']), achievements')))"

text \<open>A sequence of join requests by one user, each with the state of the community model
  at its time.\<close>

fun join_all ::
  "(verror list \<Rightarrow> string) \<Rightarrow>
     ((string \<Rightarrow> string \<Rightarrow> error + 'c) \<times> (string \<Rightarrow> error + 'd list) \<times> 'b request) list \<Rightarrow>
     (string \<Rightarrow> nat) \<Rightarrow> (string \<Rightarrow> nat)"
where
  "join_all inspect [] achievements = achievements"
| "join_all inspect ((addMember, getUserCommunities, req) # rest) achievements =
     join_all inspect rest
       (snd (join_community inspect addMember getUserCommunities req achievements))"

section \<open>Frontend controller (app/actions/actionsCtrl.js)\<close>

text \<open>
  The part of \<^verbatim>\<open>$scope\<close> that \<^verbatim>\<open>rehearseActions\<close> and \<^verbatim>\<open>showNextTip\<close> read and write:
  \<^verbatim>\<open>currentUser.profile.toRehearse\<close>, \<^verbatim>\<open>currentUser.actions\<close>, \<^verbatim>\<open>preferredNumberOfActions\<close>,
  \<^verbatim>\<open>idx\<close>, \<^verbatim>\<open>lastActionUsed\<close> and \<^verbatim>\<open>suggestedActions\<close>. The file is not in strict mode, so the
  assignment to the undeclared name \<^verbatim>\<open>actios\<close> creates a global variable; it is the last
  field (\<open>None\<close>: never assigned).
\<close>

record scope =
  sc_toRehearse :: toRehearse
  sc_actions :: user_actions
  sc_preferredNumberOfActions :: nat
  sc_idx :: int
  sc_lastActionUsed :: bool
  sc_suggestedActions :: "user_action list"
  sc_actios :: "user_action list option"

text \<open>
  What the controller does to the outside: popups, navigation, logging, calls to scope
  functions that are defined elsewhere (\<^verbatim>\<open>loadActionDetails\<close>) or not followed here
  (\<^verbatim>\<open>checkRehearse\<close>), and a thrown \<^verbatim>\<open>TypeError\<close>.
\<close>

datatype effect =
  AlertNoRehearseActions
| ConsoleLog "user_action list"
| LoadActionDetails "user_action list"
| StateGo string
| CheckRehearse
| Thrown

text \<open>Angular's \<^verbatim>\<open>$filter('orderBy')(array, 'latestDate')\<close>: a sorted copy, ascending by the
  field.\<close>

definition orderBy :: "'a list \<Rightarrow> ('a \<Rightarrow> date) \<Rightarrow> 'a list" where
  "orderBy array field = sort_key field array"

definition showNextTip :: "scope \<Rightarrow> scope \<times> effect list" where
  "showNextTip sc =
     (let sc1 = (if sc_lastActionUsed sc
                 then sc\<lparr>sc_idx := sc_idx sc + 1, sc_lastActionUsed := False\<rparr>
                 else sc)
      in if int (length (sc_suggestedActions sc1)) > sc_idx sc1
         then (if 0 \<le> sc_idx sc1
               then (sc1, [StateGo (ua_id (sc_suggestedActions sc1 ! nat (sc_idx sc1)))])
               else (sc1, [Thrown]))
         else (sc1, [CheckRehearse]))"

definition rehearseActions :: "scope \<Rightarrow> scope \<times> effect list" where
  "rehearseActions sc =
     (let actions0 = [];
          actions1 = (if tr_done (sc_toRehearse sc)
                      then actions0 @ toArray (acts_done (sc_actions sc)) else actions0);
          actions2 = (if tr_declined (sc_toRehearse sc)
                      then actions1 @ toArray (acts_declined (sc_actions sc)) else actions1);
          actions3 = (if tr_na (sc_toRehearse sc)
                      then actions2 @ toArray (acts_na (sc_actions sc)) else actions2)
      in if length actions3 = 0 then (sc, [AlertNoRehearseActions])
         else
           (let actions = orderBy actions3 ua_latestDate;
                sc1 = (if length actions > sc_preferredNumberOfActions sc
                       then sc\<lparr>sc_actios := Some (take (sc_preferredNumberOfActions sc) actions)\<rparr>
                       else sc);
                sc2 = sc1\<lparr>sc_idx := - 1, sc_lastActionUsed := True,
                          sc_suggestedActions := actions\<rparr>;
                shown = showNextTip sc2
            in (fst shown, [ConsoleLog actions, LoadActionDetails actions] @ snd shown)))"

section \<open>Rating maps over time\<close>





section \<open>Example data\<close>

definition annRating :: action_rating where
  "annRating = \<lparr>r_rating = Some 1, r_effort = None, r_name = ''Ann'', r_date = 100\<rparr>"


definition airDry :: action where
  "airDry = \<lparr>a_id = ''a1'', a_name = Some ''Air dry laundry'', a_nameSe = None,
              a_nameIt = Some ''Asciuga all'aria'', a_type = Some ''routine'',
              a_category = None, a_season = None,
              a_description = Some ''Skip the dryer'', a_descriptionSe = None,
              a_descriptionIt = None, a_impact = Some 2, a_effort = Some 3,
              a_ratings = Some [(''u1'', annRating)], a_date = 1, a_authorId = ''u0'',
              a_numLikes = None, a_userRating = None, a_numComments = None,
              a_numUsers = None\<rparr>"

definition noActions :: user_actions where
  "noActions = \<lparr>acts_done = [], acts_declined = [], acts_na = [], acts_pending = [],
                 acts_inProgress = []\<rparr>"

definition ann :: user where
  "ann = \<lparr>u_id = ''u1'', u_email = ''ann@example.org'',
           u_profile = Some \<lparr>p_name = Some ''Ann'', p_language = Some ''English'',
                              p_toRehearse = \<lparr>tr_done = True, tr_declined = False, tr_na = False\<rparr>\<rparr>,
           u_actions = noActions\<rparr>"

definition bob :: user where
  "bob = \<lparr>u_id = ''u2'', u_email = ''bob@example.org'',
           u_profile = Some \<lparr>p_name = Some ''Bob'', p_language = Some ''Italian'',
                              p_toRehearse = \<lparr>tr_done = True, tr_declined = True, tr_na = True\<rparr>\<rparr>,
           u_actions = noActions\<rparr>"

definition storedActions :: "action collection" where
  "storedActions = \<lparr>docs = [airDry], readErr = None, writeErr = None\<rparr>"

definition storedUsers :: "user collection" where
  "storedUsers = \<lparr>docs = [ann, bob], readErr = None, writeErr = None\<rparr>"

definition freshAction :: action where
  "freshAction = airDry\<lparr>a_id := ''a2'', a_name := Some ''Shorter showers'', a_ratings := Some []\<rparr>"

definition niceComment :: aComment where
  "niceComment = \<lparr>c_id = ''c1'', c_actionId = ''a1'', c_userId = ''u1'', c_name = ''Ann'',
                   c_email = ''ann@example.org'', c_comment = ''Works well'', c_date = 50,
                   c_hasPicture = False,
                   c_ratings = Some [(''u2'', \<lparr>cr_value = Some 1, cr_date = 60\<rparr>)],
                   c_numLikes = None, c_userRating = None\<rparr>"

definition storedComments :: "aComment collection" where
  "storedComments = \<lparr>docs = [niceComment], readErr = None, writeErr = None\<rparr>"

definition twoActions :: "action collection" where
  "twoActions = \<lparr>docs = [airDry, freshAction], readErr = None, writeErr = None\<rparr>"

definition carl :: user where
  "carl = \<lparr>u_id = ''u3'', u_email = ''carl@example.org'',
            u_profile = Some \<lparr>p_name = Some ''Carl'', p_language = Some ''Italian'',
                               p_toRehearse = \<lparr>tr_done = True, tr_declined = False, tr_na = True\<rparr>\<rparr>,
            u_actions = noActions\<lparr>acts_done := [(''a2'', \<lparr>ua_id = ''a2'', ua_latestDate = 5\<rparr>)]\<rparr>\<rparr>"

definition sixActions :: "action collection" where
  "sixActions = \<lparr>docs = map (\<lambda>i. airDry\<lparr>a_id := i\<rparr>) [''a1'', ''a2'', ''a3'', ''a4'', ''a5'', ''a6''],
                  readErr = None, writeErr = None\<rparr>"

definition joinRequest :: "unit request" where
  "joinRequest = \<lparr>rq_params = [(''id'', ''555ef84b2fd41ffc6e078a34'')], rq_user = ann, rq_body = ()\<rparr>"

definition listRequest :: "unit request" where
  "listRequest = \<lparr>rq_params = [(''id'', ''list'')], rq_user = ann, rq_body = ()\<rparr>"

definition funComment :: comment_body where
  "funComment = \<lparr>b_communityId = None, b_actionId = None, b_userId = None, b_name = None,
                  b_email = None, b_comment = Some ''This is a fun community!''\<rparr>"

definition commentRequest :: "comment_body request" where
  "commentRequest = \<lparr>rq_params = [(''communityId'', ''555f0163688305b57c7cef6c'')],
                      rq_user = ann, rq_body = funComment\<rparr>"

definition noComments :: "communityComment collection" where
  "noComments = \<lparr>docs = [], readErr = None, writeErr = None\<rparr>"

definition insulation :: coop_action where
  "insulation = \<lparr>ca_id = ''s1'', ca_name = Some ''Roof insulation'',
                 ca_description = Some ''Added 30 cm'', ca_date = Some 2010\<rparr>"

definition windows :: coop_action where
  "windows = \<lparr>ca_id = ''s2'', ca_name = Some ''New windows'',
              ca_description = None, ca_date = Some 2012\<rparr>"


definition brf :: cooperative where
  "brf = \<lparr>co_id = ''k1'', co_name = ''BRF Hammarby'', co_yearOfConst = 1998, co_area = 12000,
          co_meters = None, co_actions = [insulation, windows]\<rparr>"

definition storedCooperatives :: "cooperative collection" where
  "storedCooperatives = \<lparr>docs = [brf], readErr = None, writeErr = None\<rparr>"

definition newCooperative :: cooperative_input where
  "newCooperative = \<lparr>ci_name = Some ''BRF Sickla'', ci_yearOfConst = Some 2005,
                     ci_area = Some 8000,
                     ci_meters = Some \<lparr>m_electricity = Some ''E-17'', m_heating = None\<rparr>,
                     ci_actions = Some [insulation]\<rparr>"

definition rehearsing :: scope where
  "rehearsing =
     \<lparr>sc_toRehearse = \<lparr>tr_done = True, tr_declined = False, tr_na = True\<rparr>,
      sc_actions = \<lparr>acts_done = [(''a1'', \<lparr>ua_id = ''a1'', ua_latestDate = 40\<rparr>),
                                 (''a2'', \<lparr>ua_id = ''a2'', ua_latestDate = 10\<rparr>),
                                 (''a3'', \<lparr>ua_id = ''a3'', ua_latestDate = 30\<rparr>)],
                    acts_declined = [(''a4'', \<lparr>ua_id = ''a4'', ua_latestDate = 5\<rparr>)],
                    acts_na = [(''a5'', \<lparr>ua_id = ''a5'', ua_latestDate = 20\<rparr>)],
                    acts_pending = [], acts_inProgress = []\<rparr>,
      sc_preferredNumberOfActions = 3, sc_idx = 4, sc_lastActionUsed = False,
      sc_suggestedActions = [], sc_actios = None\<rparr>"

section \<open>Queries and stored documents\<close>







section \<open>Derived effort\<close>











section \<open>Rating maps are keyed by user and overwritten\<close>






subsection \<open>Actions\<close>









subsection \<open>Action comments\<close>









section \<open>Rating reduction on read\<close>


















section \<open>Suggested actions\<close>

lemma shuffleLoop_0: "shuffleLoop rnd 0 array = array"
  by (simp add: shuffleLoop.simps)

lemma shuffleLoop_step:
  "0 < i \<Longrightarrow> shuffleLoop rnd i array =
     shuffleLoop rnd (i - 1) (array[i := array ! (rnd i mod (i + 1)), rnd i mod (i + 1) := array ! i])"
  by (subst shuffleLoop.simps) (simp add: Let_def)

lemma mset_shuffleLoop:
  "i < length array \<or> i = 0 \<Longrightarrow> mset (shuffleLoop rnd i array) = mset array"
proof (induction rnd i array rule: shuffleLoop.induct)
  case (1 rnd i array)
  show ?case
  proof (cases "0 < i")
    case False
    then show ?thesis by (simp add: shuffleLoop_0)
  next
    case True
    with "1.prems" have i: "i < length array" by simp
    let ?j = "rnd i mod (i + 1)"
    let ?swapped = "array[i := array ! ?j, ?j := array ! i]"
    have "?j < Suc i" by simp
    with i have j: "?j < length array" by linarith
    have "mset (shuffleLoop rnd (i - 1) ?swapped) = mset ?swapped"
      using True i by (intro "1.IH") (auto simp: Let_def)
    also have "\<dots> = mset array"
      using j i by (rule mset_swap)
    finally show ?thesis using True by (simp add: shuffleLoop_step)
  qed
qed

lemma shuffleLoop_map:
  "i < length array \<or> i = 0 \<Longrightarrow>
   shuffleLoop rnd i (map f array) = map f (shuffleLoop rnd i array)"
proof (induction rnd i array rule: shuffleLoop.induct)
  case (1 rnd i array)
  show ?case
  proof (cases "0 < i")
    case False
    then show ?thesis by (simp add: shuffleLoop_0)
  next
    case True
    with "1.prems" have i: "i < length array" by simp
    let ?j = "rnd i mod (i + 1)"
    let ?swapped = "array[i := array ! ?j, ?j := array ! i]"
    have "?j < Suc i" by simp
    with i have j: "?j < length array" by linarith
    have "shuffleLoop rnd (i - 1) (map f ?swapped) = map f (shuffleLoop rnd (i - 1) ?swapped)"
      using True i by (intro "1.IH") (auto simp: Let_def)
    moreover have "map f ?swapped = (map f array)[i := map f array ! ?j, ?j := map f array ! i]"
      using i j by (simp add: map_update)
    ultimately show ?thesis using True by (simp add: shuffleLoop_step)
  qed
qed

lemma mset_shuffleArray: "mset (shuffleArray rnd array) = mset array"
  unfolding shuffleArray_def by (rule mset_shuffleLoop) (cases array, simp_all)

lemma shuffleArray_map: "shuffleArray rnd (map f array) = map f (shuffleArray rnd array)"
  unfolding shuffleArray_def using shuffleLoop_map [of "length array - 1" array rnd f]
  by (cases array) simp_all

lemma length_shuffleArray: "length (shuffleArray rnd array) = length array"
  using mset_shuffleArray [of rnd array] by (metis size_mset)

lemma shuffleAndCap_map: "shuffleAndCap rnd (map f xs) = map f (shuffleAndCap rnd xs)"
  by (simp add: shuffleAndCap_def shuffleArray_map take_map)

lemma length_shuffleAndCap: "length (shuffleAndCap rnd xs) = min 5 (length xs)"
  by (simp add: shuffleAndCap_def length_shuffleArray)

lemma mset_take_subset: "mset (take n xs) \<subseteq># mset xs"
  by (metis append_take_drop_id mset_append mset_subset_eq_add_left)

lemma mset_shuffleAndCap: "mset (shuffleAndCap rnd xs) \<subseteq># mset xs"
proof (cases "5 < length xs")
  case True
  have "mset (take 5 (shuffleArray rnd xs)) \<subseteq># mset (shuffleArray rnd xs)"
    by (rule mset_take_subset)
  with True show ?thesis by (simp add: shuffleAndCap_def mset_shuffleArray)
next
  case False
  then show ?thesis by (simp add: shuffleAndCap_def)
qed

lemma set_shuffleAndCap: "set (shuffleAndCap rnd xs) \<subseteq> set xs"
  using mset_shuffleAndCap [of rnd xs] by (metis set_mset_mono set_mset_mset)


lemma suggestion_ids:
  assumes "\<And>a. s_id (ren (sel a)) = a_id a"
  shows "map s_id (map ren (shuffleAndCap rnd (map sel found)))
           = shuffleAndCap rnd (map a_id found)"
proof -
  have "map s_id (map ren (shuffleAndCap rnd (map sel found)))
          = map (\<lambda>a. s_id (ren (sel a))) (shuffleAndCap rnd found)"
    by (simp add: shuffleAndCap_map comp_def)
  also have "\<dots> = shuffleAndCap rnd (map (\<lambda>a. s_id (ren (sel a))) found)"
    by (simp only: shuffleAndCap_map)
  finally show ?thesis by (simp add: assms)
qed

lemma suggestion_elem:
  assumes "s \<in> set (map ren (shuffleAndCap rnd (map sel found)))"
  shows "\<exists>a \<in> set found. s = ren (sel a)"
proof -
  from assms obtain x where "x \<in> set (shuffleAndCap rnd (map sel found))" "s = ren x" by auto
  moreover have "set (shuffleAndCap rnd (map sel found)) \<subseteq> sel ` set found"
    using set_shuffleAndCap [of rnd "map sel found"] by simp
  ultimately show ?thesis by auto
qed

text \<open>The three branches of \<^verbatim>\<open>getSuggested\<close> as one: the query, the selection and the renaming
  loop of the branch that the user's language picks.\<close>

lemma getSuggested_Inr:
  assumes "getSuggested rnd coll usr = Inr res"
  shows "\<exists>(sel :: action \<Rightarrow> selected) ren.
     res = map ren (shuffleAndCap rnd (map sel
             (filter (\<lambda>a. ninBuckets (u_actions usr) (a_id a) \<and>
                          (hasLanguage usr ''Italian'' \<longrightarrow> a_nameIt a \<noteq> None) \<and>
                          (\<not> hasLanguage usr ''Italian'' \<and> hasLanguage usr ''Swedish'' \<longrightarrow>
                             a_nameSe a \<noteq> None)) (docs coll)))) \<and>
     (\<forall>a. s_id (ren (sel a)) = a_id a) \<and>
     (\<forall>a. s_name (ren (sel a)) =
        (if hasLanguage usr ''Italian'' then a_nameIt a
         else if hasLanguage usr ''Swedish'' then a_nameSe a else a_name a))"
    (is "\<exists>sel ren. ?R sel ren")
proof (cases "hasLanguage usr ''Italian''")
  case True
  with assms have
    "?R selectIt (\<lambda>s. s\<lparr>s_name := s_nameIt s, s_description := s_descriptionIt s,
                          s_nameIt := None, s_descriptionIt := None\<rparr>)"
    by (auto simp: getSuggested_def find_docs_def selectIt_def split: option.splits)
  then show ?thesis by blast
next
  case False
  note notIt = this
  show ?thesis
  proof (cases "hasLanguage usr ''Swedish''")
    case True
    with assms notIt have
      "?R selectSe (\<lambda>s. s\<lparr>s_name := s_nameSe s, s_description := s_descriptionSe s,
                            s_nameSe := None, s_descriptionSe := None\<rparr>)"
      by (auto simp: getSuggested_def find_docs_def selectSe_def split: option.splits)
    then show ?thesis by blast
  next
    case False
    with assms notIt have "?R selectEn (\<lambda>s. s)"
      by (auto simp: getSuggested_def find_docs_def selectEn_def split: option.splits)
    then show ?thesis by blast
  qed
qed

text \<open>
  C2, as the code has it. Every suggested action has an id that is in none of the user's
  five buckets and belongs to a stored action; for an Italian (Swedish) profile that action
  has an Italian (Swedish) name, which is the name returned. The result holds
  \<open>min 5 n\<close> of the \<open>n\<close> candidates, each at most once. With at most five candidates the
  result is the candidate list in the order of the query, not shuffled; with more than five
  it is the first five elements of the shuffled candidate list.
\<close>

theorem getSuggested_result:
  "getSuggested rnd coll usr = Inr res \<longrightarrow>
     length res \<le> 5 \<and>
     (\<forall>s \<in> set res.
        ninBuckets (u_actions usr) (s_id s) \<and>
        (\<exists>a \<in> set (docs coll). a_id a = s_id s \<and>
           (hasLanguage usr ''Italian'' \<longrightarrow> a_nameIt a \<noteq> None \<and> s_name s = a_nameIt a) \<and>
           (\<not> hasLanguage usr ''Italian'' \<and> hasLanguage usr ''Swedish'' \<longrightarrow>
              a_nameSe a \<noteq> None \<and> s_name s = a_nameSe a))) \<and>
     (let candidates =
            filter (\<lambda>a. ninBuckets (u_actions usr) (a_id a) \<and>
                         (hasLanguage usr ''Italian'' \<longrightarrow> a_nameIt a \<noteq> None) \<and>
                         (\<not> hasLanguage usr ''Italian'' \<and> hasLanguage usr ''Swedish'' \<longrightarrow>
                            a_nameSe a \<noteq> None)) (docs coll)
      in length res = min 5 (length candidates) \<and>
         mset (map s_id res) \<subseteq># mset (map a_id candidates) \<and>
         (length candidates \<le> 5 \<longrightarrow> map s_id res = map a_id candidates) \<and>
         (5 < length candidates \<longrightarrow>
            map s_id res = take 5 (shuffleArray rnd (map a_id candidates))))"
proof
  assume ok: "getSuggested rnd coll usr = Inr res"
  let ?Q = "\<lambda>a. ninBuckets (u_actions usr) (a_id a) \<and>
                 (hasLanguage usr ''Italian'' \<longrightarrow> a_nameIt a \<noteq> None) \<and>
                 (\<not> hasLanguage usr ''Italian'' \<and> hasLanguage usr ''Swedish'' \<longrightarrow>
                    a_nameSe a \<noteq> None)"
  let ?cands = "filter ?Q (docs coll)"
  from getSuggested_Inr [OF ok] obtain sel :: "action \<Rightarrow> selected" and ren where
    res: "res = map ren (shuffleAndCap rnd (map sel ?cands))" and
    ids: "\<And>a. s_id (ren (sel a)) = a_id a" and
    names: "\<And>a. s_name (ren (sel a)) =
        (if hasLanguage usr ''Italian'' then a_nameIt a
         else if hasLanguage usr ''Swedish'' then a_nameSe a else a_name a)"
    by blast
  have idlist: "map s_id res = shuffleAndCap rnd (map a_id ?cands)"
    unfolding res using ids by (rule suggestion_ids)
  have len: "length res = min 5 (length ?cands)"
    using arg_cong [OF idlist, of length] by (simp add: length_shuffleAndCap)
  have elems: "ninBuckets (u_actions usr) (s_id s) \<and>
        (\<exists>a \<in> set (docs coll). a_id a = s_id s \<and>
           (hasLanguage usr ''Italian'' \<longrightarrow> a_nameIt a \<noteq> None \<and> s_name s = a_nameIt a) \<and>
           (\<not> hasLanguage usr ''Italian'' \<and> hasLanguage usr ''Swedish'' \<longrightarrow>
              a_nameSe a \<noteq> None \<and> s_name s = a_nameSe a))"
    if "s \<in> set res" for s
  proof -
    from that res obtain a where a: "a \<in> set ?cands" and s: "s = ren (sel a)"
      using suggestion_elem [of s ren rnd sel ?cands] by blast
    from a have "a \<in> set (docs coll)" and "?Q a" by simp_all
    with s ids [of a] names [of a] show ?thesis by auto
  qed
  have sub: "mset (map s_id res) \<subseteq># mset (map a_id ?cands)"
    unfolding idlist by (rule mset_shuffleAndCap)
  have few: "map s_id res = map a_id ?cands" if "length ?cands \<le> 5"
    using that by (simp add: idlist shuffleAndCap_def)
  have many: "map s_id res = take 5 (shuffleArray rnd (map a_id ?cands))" if "5 < length ?cands"
    using that by (simp add: idlist shuffleAndCap_def)
  from len have "length res \<le> 5" by simp
  with len elems sub few many show
    "length res \<le> 5 \<and>
     (\<forall>s \<in> set res.
        ninBuckets (u_actions usr) (s_id s) \<and>
        (\<exists>a \<in> set (docs coll). a_id a = s_id s \<and>
           (hasLanguage usr ''Italian'' \<longrightarrow> a_nameIt a \<noteq> None \<and> s_name s = a_nameIt a) \<and>
           (\<not> hasLanguage usr ''Italian'' \<and> hasLanguage usr ''Swedish'' \<longrightarrow>
              a_nameSe a \<noteq> None \<and> s_name s = a_nameSe a))) \<and>
     (let candidates = ?cands
      in length res = min 5 (length candidates) \<and>
         mset (map s_id res) \<subseteq># mset (map a_id candidates) \<and>
         (length candidates \<le> 5 \<longrightarrow> map s_id res = map a_id candidates) \<and>
         (5 < length candidates \<longrightarrow>
            map s_id res = take 5 (shuffleArray rnd (map a_id candidates))))"
    unfolding Let_def by blast
qed


theorem getSuggested_result_witness:
  "map_sum id (map s_id) (getSuggested (\<lambda>i. 0) sixActions bob)
     = Inr [''a2'', ''a3'', ''a4'', ''a5'', ''a6''] \<and>
   take 5 (shuffleArray (\<lambda>i. 0) [''a1'', ''a2'', ''a3'', ''a4'', ''a5'', ''a6''])
     = [''a2'', ''a3'', ''a4'', ''a5'', ''a6''] \<and>
   map_sum id (map (\<lambda>s. (s_id s, s_name s))) (getSuggested (\<lambda>i. 0) twoActions carl)
     = Inr [(''a1'', Some ''Asciuga all'aria'')]"
proof -
  have six: "map_sum id (map s_id) (getSuggested (\<lambda>i. 0) sixActions bob)
     = Inr [''a2'', ''a3'', ''a4'', ''a5'', ''a6'']"
    by (simp add: getSuggested_def shuffleAndCap_def shuffleArray_def shuffleLoop.simps
        find_docs_def hasLanguage_def ninBuckets_def keys_def selectIt_def sixActions_def
        airDry_def bob_def noActions_def annRating_def Let_def)
  have sh: "take 5 (shuffleArray (\<lambda>i. 0) [''a1'', ''a2'', ''a3'', ''a4'', ''a5'', ''a6''])
     = [''a2'', ''a3'', ''a4'', ''a5'', ''a6'']"
    by (simp add: shuffleArray_def shuffleLoop.simps Let_def)
  have two: "map_sum id (map (\<lambda>s. (s_id s, s_name s))) (getSuggested (\<lambda>i. 0) twoActions carl)
     = Inr [(''a1'', Some ''Asciuga all'aria'')]"
    by (simp add: getSuggested_def shuffleAndCap_def find_docs_def hasLanguage_def
        ninBuckets_def keys_def selectIt_def twoActions_def airDry_def freshAction_def carl_def
        noActions_def annRating_def Let_def)
  from six sh two
    getSuggested_result [of "\<lambda>i. 0" sixActions bob
      "projr (getSuggested (\<lambda>i. 0) sixActions bob)"]
  show ?thesis by simp
qed

text \<open>
  With two candidates the result is the candidate list in query order, whatever the random
  source: here a source under which \<^verbatim>\<open>shuffleArray\<close> would have put the second first.
\<close>

theorem getSuggested_not_shuffled:
  "map_sum id (map s_id) (getSuggested (\<lambda>i. 0) twoActions ann) = Inr [''a1'', ''a2''] \<and>
   take 5 (shuffleArray (\<lambda>i. 0) [''a1'', ''a2'']) = [''a2'', ''a1'']"
  by (simp add: getSuggested_def shuffleAndCap_def shuffleArray_def shuffleLoop.simps
      find_docs_def hasLanguage_def ninBuckets_def keys_def selectEn_def twoActions_def
      airDry_def freshAction_def ann_def noActions_def annRating_def Let_def)


section \<open>Joining a community and the achievement counter\<close>

lemma join_community_counter:
  "achievements ''communitiesJoined''
     \<le> snd (join_community inspect addMember getUserCommunities req achievements) ''communitiesJoined''"
  by (simp add: join_community_def updateAchievement_def Let_def split: sum.splits)

lemma join_all_counter:
  "achievements ''communitiesJoined'' \<le> join_all inspect joins achievements ''communitiesJoined''"
proof (induction joins arbitrary: achievements)
  case Nil
  show ?case by simp
next
  case (Cons join joins)
  obtain addMember getUserCommunities req where
    join: "join = (addMember, getUserCommunities, req)" by (cases join)
  let ?next = "snd (join_community inspect addMember getUserCommunities req achievements)"
  have "achievements ''communitiesJoined'' \<le> ?next ''communitiesJoined''"
    by (rule join_community_counter)
  also have "\<dots> \<le> join_all inspect joins ?next ''communitiesJoined''"
    by (rule Cons.IH)
  finally show ?case by (simp add: join)
qed

text \<open>
  C5. When the id is valid, \<^verbatim>\<open>addMember\<close> reports no error and the user's communities are
  fetched, the \<^verbatim>\<open>communitiesJoined\<close> counter becomes the maximum of its old value and the
  number of the user's communities, and no other counter changes. Whatever the outcome of
  a join, and over any sequence of joins, the counter does not decrease.
\<close>

theorem join_updates_counter_to_max:
  "(validateId (rq_params req) ''id'' ''Invalid Community id'' = Inr ident \<and>
    addMember ident (u_id (rq_user req)) = Inr community \<and>
    getUserCommunities (u_id (rq_user req)) = Inr communities \<longrightarrow>
      snd (join_community inspect addMember getUserCommunities req achievements) ''communitiesJoined''
        = max (achievements ''communitiesJoined'') (length communities) \<and>
      (\<forall>name. name \<noteq> ''communitiesJoined'' \<longrightarrow>
         snd (join_community inspect addMember getUserCommunities req achievements) name
           = achievements name)) \<and>
   achievements ''communitiesJoined''
     \<le> snd (join_community inspect addMember getUserCommunities req achievements) ''communitiesJoined'' \<and>
   achievements ''communitiesJoined''
     \<le> join_all inspect joins achievements ''communitiesJoined''"
proof (intro conjI impI)
  assume ok: "validateId (rq_params req) ''id'' ''Invalid Community id'' = Inr ident \<and>
    addMember ident (u_id (rq_user req)) = Inr community \<and>
    getUserCommunities (u_id (rq_user req)) = Inr communities"
  then show "snd (join_community inspect addMember getUserCommunities req achievements)
        ''communitiesJoined'' = max (achievements ''communitiesJoined'') (length communities)"
    by (simp add: join_community_def updateAchievement_def Let_def)
  from ok show "\<forall>name. name \<noteq> ''communitiesJoined'' \<longrightarrow>
         snd (join_community inspect addMember getUserCommunities req achievements) name
           = achievements name"
    by (simp add: join_community_def updateAchievement_def Let_def)
next
  show "achievements ''communitiesJoined''
     \<le> snd (join_community inspect addMember getUserCommunities req achievements) ''communitiesJoined''"
    by (rule join_community_counter)
  show "achievements ''communitiesJoined''
     \<le> join_all inspect joins achievements ''communitiesJoined''"
    by (rule join_all_counter)
qed

theorem join_updates_counter_to_max_witness:
  "validateId (rq_params joinRequest) ''id'' ''Invalid Community id''
     = Inr ''555ef84b2fd41ffc6e078a34'' \<and>
   snd (join_community (\<lambda>err. ''errors'') (\<lambda>i u. Inr i) (\<lambda>u. Inr [''c1'', ''c2''])
          joinRequest (\<lambda>name. 1)) ''communitiesJoined'' = 2 \<and>
   snd (join_community (\<lambda>err. ''errors'') (\<lambda>i u. Inr i) (\<lambda>u. Inr [''c1'', ''c2''])
          joinRequest (\<lambda>name. 1)) ''other'' = 1 \<and>
   join_all (\<lambda>err. ''errors'')
     [(\<lambda>i u. Inr i, \<lambda>u. Inr [''c1'', ''c2'', ''c3''], joinRequest),
      (\<lambda>i u. Inr i, \<lambda>u. Inr [''c1''], joinRequest)] (\<lambda>name. 1) ''communitiesJoined'' = 3"
  using join_updates_counter_to_max
    [where req = joinRequest and ident = "''555ef84b2fd41ffc6e078a34''"
       and addMember = "\<lambda>i u. Inr i" and community = "''555ef84b2fd41ffc6e078a34''"
       and getUserCommunities = "\<lambda>u. Inr [''c1'', ''c2'']" and communities = "[''c1'', ''c2'']"
       and inspect = "\<lambda>err. ''errors''" and achievements = "\<lambda>name. 1"
       and joins = "[(\<lambda>i u. Inr i, \<lambda>u. Inr [''c1'', ''c2'', ''c3''], joinRequest),
                     (\<lambda>i u. Inr i, \<lambda>u. Inr [''c1''], joinRequest)]"]
  by (simp add: join_community_def updateAchievement_def validateId_def isMongoId_def
      isHexDigit_def get_prop_def joinRequest_def ann_def Let_def)


section \<open>Error reporting\<close>

lemma validateId_invalid:
  assumes "\<forall>v. get_prop params name = Some v \<longrightarrow> \<not> isMongoId v"
  shows "\<exists>err. err \<noteq> [] \<and> validateId params name msg = Inl err"
  using assms by (cases "get_prop params name") (simp_all add: validateId_def)

lemma actionComments_rate_no_throw:
  assumes "\<forall>c \<in> set (docs coll). c_ratings c \<noteq> None"
  shows "fst (actionComments_rate coll actionId commentId usr rating now) \<noteq> Inl TypeError"
proof -
  have "c_ratings c \<noteq> None"
    if "List.find (\<lambda>c. c_actionId c = actionId \<and> c_id c = commentId) (docs coll) = Some c" for c
    using that assms by (auto simp: find_Some_iff)
  then show ?thesis
    by (auto simp: actionComments_rate_def findOne_def save_def Let_def
        split: option.splits sum.splits if_splits)
qed

text \<open>
  C7. A request whose id parameter is missing or not a MongoId is answered with status 500
  and the validation message, by each of the routes that validate an id; the picture route
  sends the message through \<^verbatim>\<open>res.successRes\<close>. The domain errors of the model operations
  (missing or invalid user, missing or invalid rating, action or comment not found) are
  message strings handed to the callback, the collection is left as it was, and rating a
  comment never throws when every stored comment has its rating map.
\<close>

theorem invalid_id_and_domain_errors:
  "((\<forall>v. get_prop (rq_params req) ''id'' = Some v \<longrightarrow> \<not> isMongoId v) \<longrightarrow>
      (\<exists>err. err \<noteq> [] \<and>
         fst (get_community inspect getCommunityInfo req)
           = \<lparr>status = 500, payload = Text (''There have been validation errors: '' @ inspect err)\<rparr>) \<and>
      (\<exists>err. err \<noteq> [] \<and>
         fst (delete_community inspect community_delete req)
           = \<lparr>status = 500, payload = Text (''There have been validation errors: '' @ inspect err)\<rparr>) \<and>
      (\<exists>err. err \<noteq> [] \<and>
         fst (fst (join_community inspect addMember getUserCommunities req achievements))
           = \<lparr>status = 500, payload = Text (''There have been validation errors: '' @ inspect err)\<rparr>) \<and>
      (\<exists>err. err \<noteq> [] \<and>
         fst (rate_community inspect community_rate req)
           = \<lparr>status = 500, payload = Text (''There have been validation errors: '' @ inspect err)\<rparr>)) \<and>
   ((\<forall>v. get_prop (rq_params topReq) ''id'' = Some v \<longrightarrow> \<not> isMongoId v) \<longrightarrow>
      (\<exists>err. err \<noteq> [] \<and>
         fst (top_actions inspect topActions topReq)
           = \<lparr>status = 500, payload = Text (''There have been validation errors: '' @ inspect err)\<rparr>)) \<and>
   ((\<forall>v. get_prop (rq_params picReq) ''communityId'' = Some v \<longrightarrow> \<not> isMongoId v) \<longrightarrow>
      (\<exists>err. err \<noteq> [] \<and>
         fst (community_picture inspect uploadPicture picReq)
           = \<lparr>status = 500,
              payload = Failure (Msg (''There have been validation errors: '' @ inspect err))\<rparr>)) \<and>
   (usr = None \<or> (\<exists>u. usr = Some u \<and> u_id u = []) \<longrightarrow>
      actionComments_rate coll actionId commentId usr rating now
        = (Inl (Msg ''Missing/invalid user''), coll)) \<and>
   ((\<exists>u. usr = Some u \<and> u_id u \<noteq> []) \<and> rating = None \<longrightarrow>
      actionComments_rate coll actionId commentId usr rating now
        = (Inl (Msg ''Missing/invalid rating''), coll)) \<and>
   ((\<exists>u. usr = Some u \<and> u_id u \<noteq> []) \<and> rating \<noteq> None \<and> readErr coll = None \<and>
    List.find (\<lambda>c. c_actionId c = actionId \<and> c_id c = commentId) (docs coll) = None \<longrightarrow>
      actionComments_rate coll actionId commentId usr rating now
        = (Inl (Msg ''Action comment not found''), coll)) \<and>
   ((\<exists>u. usr = Some u \<and> u_id u \<noteq> []) \<and> (\<exists>rt. rating = Some rt \<and> rt \<noteq> 0 \<and> rt \<noteq> 1) \<and>
    readErr coll = None \<and>
    List.find (\<lambda>c. c_actionId c = actionId \<and> c_id c = commentId) (docs coll) \<noteq> None \<longrightarrow>
      actionComments_rate coll actionId commentId usr rating now
        = (Inl (Msg ''invalid rating! should be 0 or 1''), coll)) \<and>
   ((\<forall>c \<in> set (docs coll). c_ratings c \<noteq> None) \<longrightarrow>
      fst (actionComments_rate coll actionId commentId usr rating now) \<noteq> Inl TypeError) \<and>
   (readErr actions = None \<and> List.find (\<lambda>a. a_id a = ident) (docs actions) = None \<longrightarrow>
      action_get actions comments users ident requester = Inl (Msg ''Action not found'') \<and>
      ((\<exists>u n. requester = Some u \<and> validUserName u = Some n) \<longrightarrow>
         action_rate actions ident requester like effort now
           = (Inl (Msg ''Action not found''), actions)))"
proof (intro conjI impI)
  assume bad: "\<forall>v. get_prop (rq_params req) ''id'' = Some v \<longrightarrow> \<not> isMongoId v"
  from validateId_invalid [OF bad, of "''Invalid community id''"] show
    "\<exists>err. err \<noteq> [] \<and> fst (get_community inspect getCommunityInfo req)
       = \<lparr>status = 500, payload = Text (''There have been validation errors: '' @ inspect err)\<rparr>"
    by (auto simp: get_community_def validationMessage_def)
  from validateId_invalid [OF bad, of "''Invalid Community id''"] show
    "\<exists>err. err \<noteq> [] \<and> fst (delete_community inspect community_delete req)
       = \<lparr>status = 500, payload = Text (''There have been validation errors: '' @ inspect err)\<rparr>"
    by (auto simp: delete_community_def validationMessage_def)
  from validateId_invalid [OF bad, of "''Invalid Community id''"] show
    "\<exists>err. err \<noteq> [] \<and>
       fst (fst (join_community inspect addMember getUserCommunities req achievements))
       = \<lparr>status = 500, payload = Text (''There have been validation errors: '' @ inspect err)\<rparr>"
    by (auto simp: join_community_def validationMessage_def)
  from validateId_invalid [OF bad, of "''Invalid community id''"] show
    "\<exists>err. err \<noteq> [] \<and> fst (rate_community inspect community_rate req)
       = \<lparr>status = 500, payload = Text (''There have been validation errors: '' @ inspect err)\<rparr>"
    by (auto simp: rate_community_def validationMessage_def)
next
  assume bad: "\<forall>v. get_prop (rq_params topReq) ''id'' = Some v \<longrightarrow> \<not> isMongoId v"
  from validateId_invalid [OF bad, of "''Invalid Community id''"] show
    "\<exists>err. err \<noteq> [] \<and> fst (top_actions inspect topActions topReq)
       = \<lparr>status = 500, payload = Text (''There have been validation errors: '' @ inspect err)\<rparr>"
    by (auto simp: top_actions_def validationMessage_def)
next
  assume bad: "\<forall>v. get_prop (rq_params picReq) ''communityId'' = Some v \<longrightarrow> \<not> isMongoId v"
  from validateId_invalid [OF bad, of "''Invalid Community id''"] show
    "\<exists>err. err \<noteq> [] \<and> fst (community_picture inspect uploadPicture picReq)
       = \<lparr>status = 500,
          payload = Failure (Msg (''There have been validation errors: '' @ inspect err))\<rparr>"
    by (auto simp: community_picture_def validationMessage_def successRes_def)
next
  assume "usr = None \<or> (\<exists>u. usr = Some u \<and> u_id u = [])"
  then show "actionComments_rate coll actionId commentId usr rating now
        = (Inl (Msg ''Missing/invalid user''), coll)"
    by (auto simp: actionComments_rate_def)
next
  assume "(\<exists>u. usr = Some u \<and> u_id u \<noteq> []) \<and> rating = None"
  then show "actionComments_rate coll actionId commentId usr rating now
        = (Inl (Msg ''Missing/invalid rating''), coll)"
    by (auto simp: actionComments_rate_def)
next
  assume "(\<exists>u. usr = Some u \<and> u_id u \<noteq> []) \<and> rating \<noteq> None \<and> readErr coll = None \<and>
    List.find (\<lambda>c. c_actionId c = actionId \<and> c_id c = commentId) (docs coll) = None"
  then show "actionComments_rate coll actionId commentId usr rating now
        = (Inl (Msg ''Action comment not found''), coll)"
    by (auto simp: actionComments_rate_def findOne_def)
next
  assume "(\<exists>u. usr = Some u \<and> u_id u \<noteq> []) \<and> (\<exists>rt. rating = Some rt \<and> rt \<noteq> 0 \<and> rt \<noteq> 1) \<and>
    readErr coll = None \<and>
    List.find (\<lambda>c. c_actionId c = actionId \<and> c_id c = commentId) (docs coll) \<noteq> None"
  then show "actionComments_rate coll actionId commentId usr rating now
        = (Inl (Msg ''invalid rating! should be 0 or 1''), coll)"
    by (auto simp: actionComments_rate_def findOne_def)
next
  assume "\<forall>c \<in> set (docs coll). c_ratings c \<noteq> None"
  then show "fst (actionComments_rate coll actionId commentId usr rating now) \<noteq> Inl TypeError"
    by (rule actionComments_rate_no_throw)
next
  assume missing: "readErr actions = None \<and> List.find (\<lambda>a. a_id a = ident) (docs actions) = None"
  then show "action_get actions comments users ident requester = Inl (Msg ''Action not found'')"
    by (simp add: action_get_def findOne_def)
  assume "\<exists>u n. requester = Some u \<and> validUserName u = Some n"
  with missing show "action_rate actions ident requester like effort now
           = (Inl (Msg ''Action not found''), actions)"
    by (auto simp: action_rate_def findOne_def)
qed

theorem invalid_id_and_domain_errors_witness:
  "get_prop (rq_params listRequest) ''id'' = Some ''list'' \<and> \<not> isMongoId ''list'' \<and>
   fst (get_community (\<lambda>err. ''[..]'') (\<lambda>i. Inr i) listRequest)
     = \<lparr>status = 500, payload = Text ''There have been validation errors: [..]''\<rparr> \<and>
   get_prop (rq_params listRequest) ''communityId'' = None \<and>
   fst (community_picture (\<lambda>err. ''[..]'') (\<lambda>i. Inr i) listRequest)
     = \<lparr>status = 500, payload = Failure (Msg ''There have been validation errors: [..]'')\<rparr> \<and>
   actionComments_rate storedComments ''a1'' ''c1'' (Some ann) (Some 2) 70
     = (Inl (Msg ''invalid rating! should be 0 or 1''), storedComments) \<and>
   actionComments_rate storedComments ''a1'' ''c9'' (Some ann) (Some 1) 70
     = (Inl (Msg ''Action comment not found''), storedComments) \<and>
   actionComments_rate storedComments ''a1'' ''c1'' None (Some 1) 70
     = (Inl (Msg ''Missing/invalid user''), storedComments) \<and>
   actionComments_rate storedComments ''a1'' ''c1'' (Some ann) None 70
     = (Inl (Msg ''Missing/invalid rating''), storedComments) \<and>
   action_get storedActions storedComments storedUsers ''a9'' (Some ann)
     = Inl (Msg ''Action not found'') \<and>
   action_rate storedActions ''a9'' (Some ann) (Some 1) (Some 3) 70
     = (Inl (Msg ''Action not found''), storedActions)"
  using invalid_id_and_domain_errors
    [where req = listRequest and inspect = "\<lambda>err. ''[..]''" and getCommunityInfo = "\<lambda>i. Inr i"
       and picReq = listRequest and uploadPicture = "\<lambda>i. Inr i"
       and usr = "Some ann" and rating = "Some 2" and coll = storedComments
       and actionId = "''a1''" and commentId = "''c1''" and now = 70
       and actions = storedActions and comments = storedComments and users = storedUsers
       and ident = "''a9''" and requester = "Some ann" and like = "Some 1" and effort = "Some 3"]
  by (simp add: get_community_def community_picture_def successRes_def validateId_def
      validationMessage_def isMongoId_def get_prop_def listRequest_def
      actionComments_rate_def action_get_def action_rate_def validUserName_def findOne_def
      storedComments_def storedActions_def niceComment_def airDry_def ann_def)


section \<open>Community comments and their parent community\<close>

text \<open>The handler never reads the \<^verbatim>\<open>communityId\<close> path parameter: what reaches
  \<^verbatim>\<open>exports.create\<close> as \<^verbatim>\<open>communityId\<close> is the field of the request body.\<close>

lemma post_comment_stores_body_communityId:
  "snd (post_comment coll req newId now) = coll \<or>
   (\<exists>doc. docs (snd (post_comment coll req newId now)) = docs coll @ [doc] \<and>
          Some (cc_communityId doc) = b_communityId (rq_body req))"
  by (auto simp: post_comment_def communityComments_create_def required_def Let_def
      split: option.splits sum.splits if_splits)

text \<open>
  C6 fails on the code. A request to
  \<^verbatim>\<open>POST /community/555f0163688305b57c7cef6c/comment\<close> with the body of the API example
  (only a \<^verbatim>\<open>comment\<close>) reaches \<^verbatim>\<open>exports.create\<close> without a \<^verbatim>\<open>communityId\<close>: validation
  fails and nothing is stored. With a \<^verbatim>\<open>communityId\<close> in the body, the comment is stored
  under that id and not under the id of the path.
\<close>

theorem post_comment_ignores_path_community:
  "get_prop (rq_params commentRequest) ''communityId'' = Some ''555f0163688305b57c7cef6c'' \<and>
   fst (communityComments_create noComments
          (funComment\<lparr>b_userId := Some ''u1'', b_name := Some ''Ann'',
                       b_email := Some ''ann@example.org''\<rparr>) ''n1'' 99)
     = Inl (ValidationError ''communityId'') \<and>
   docs (snd (post_comment noComments commentRequest ''n1'' 99)) = [] \<and>
   map cc_communityId
     (docs (snd (post_comment noComments
        (commentRequest\<lparr>rq_body := funComment\<lparr>b_communityId := Some ''aaaaaaaaaaaaaaaaaaaaaaaa''\<rparr>\<rparr>)
        ''n1'' 99)))
     = [''aaaaaaaaaaaaaaaaaaaaaaaa'']"
  by (simp add: post_comment_def communityComments_create_def required_def get_prop_def
      commentRequest_def funComment_def noComments_def ann_def Let_def)


section \<open>Cooperatives\<close>










text \<open>
  C9. What \<^verbatim>\<open>exports.create\<close> does is the same whatever \<^verbatim>\<open>meters\<close> and \<^verbatim>\<open>actions\<close> the input
  carries; a created cooperative has the name, year and area of the input, no meters and an
  empty list of actions, and is added to the collection.
\<close>

theorem cooperative_create_ignores_meters_and_actions:
  "cooperative_create coll (cooperative\<lparr>ci_meters := m, ci_actions := acts\<rparr>) newId
     = cooperative_create coll cooperative newId \<and>
   (cooperative_create coll cooperative newId = (Inr doc, coll') \<longrightarrow>
      co_actions doc = [] \<and> co_meters doc = None \<and>
      Some (co_name doc) = ci_name cooperative \<and>
      Some (co_yearOfConst doc) = ci_yearOfConst cooperative \<and>
      Some (co_area doc) = ci_area cooperative \<and>
      co_id doc = newId \<and> docs coll' = docs coll @ [doc])"
  by (auto simp: cooperative_create_def Let_def split: option.splits if_splits)

theorem cooperative_create_ignores_meters_and_actions_witness:
  "ci_meters newCooperative = Some \<lparr>m_electricity = Some ''E-17'', m_heating = None\<rparr> \<and>
   ci_actions newCooperative = Some [insulation] \<and>
   cooperative_create storedCooperatives newCooperative ''k2''
     = (Inr \<lparr>co_id = ''k2'', co_name = ''BRF Sickla'', co_yearOfConst = 2005, co_area = 8000,
             co_meters = None, co_actions = []\<rparr>,
        storedCooperatives\<lparr>docs := [brf,
           \<lparr>co_id = ''k2'', co_name = ''BRF Sickla'', co_yearOfConst = 2005, co_area = 8000,
            co_meters = None, co_actions = []\<rparr>]\<rparr>) \<and>
   cooperative_create storedCooperatives
       (newCooperative\<lparr>ci_meters := None, ci_actions := None\<rparr>) ''k2''
     = cooperative_create storedCooperatives newCooperative ''k2''"
  using cooperative_create_ignores_meters_and_actions
    [where coll = storedCooperatives and cooperative = newCooperative and m = None
       and acts = None and newId = "''k2''"
       and doc = "\<lparr>co_id = ''k2'', co_name = ''BRF Sickla'', co_yearOfConst = 2005,
                    co_area = 8000, co_meters = None, co_actions = []\<rparr>"
       and coll' = "storedCooperatives\<lparr>docs := [brf,
           \<lparr>co_id = ''k2'', co_name = ''BRF Sickla'', co_yearOfConst = 2005, co_area = 8000,
            co_meters = None, co_actions = []\<rparr>]\<rparr>"]
  by (simp add: cooperative_create_def newCooperative_def storedCooperatives_def brf_def
      Let_def)


section \<open>Rehearsing actions in the frontend\<close>

text \<open>
  C10. Let \<open>chosen\<close> be the actions of the buckets (done, declined, na) whose rehearsal
  switch is on, in that order. If \<open>chosen\<close> is empty, \<^verbatim>\<open>rehearseActions\<close> shows the alert and
  changes nothing. Otherwise \<^verbatim>\<open>suggestedActions\<close> becomes \<open>chosen\<close> sorted ascending by
  \<^verbatim>\<open>latestDate\<close>: all of its elements, however many; the first
  \<^verbatim>\<open>preferredNumberOfActions\<close> of them go to the variable \<^verbatim>\<open>actios\<close> when there are more;
  no alert is shown and the first suggested action is opened.
\<close>

theorem rehearseActions_unbounded:
  "(let chosen = (if tr_done (sc_toRehearse sc) then toArray (acts_done (sc_actions sc)) else []) @
                 (if tr_declined (sc_toRehearse sc) then toArray (acts_declined (sc_actions sc)) else []) @
                 (if tr_na (sc_toRehearse sc) then toArray (acts_na (sc_actions sc)) else [])
    in (chosen = [] \<longrightarrow> rehearseActions sc = (sc, [AlertNoRehearseActions])) \<and>
       (chosen \<noteq> [] \<longrightarrow>
          sorted (map ua_latestDate (sc_suggestedActions (fst (rehearseActions sc)))) \<and>
          mset (sc_suggestedActions (fst (rehearseActions sc))) = mset chosen \<and>
          length (sc_suggestedActions (fst (rehearseActions sc))) = length chosen \<and>
          sc_actios (fst (rehearseActions sc)) =
            (if sc_preferredNumberOfActions sc < length chosen
             then Some (take (sc_preferredNumberOfActions sc)
                          (sc_suggestedActions (fst (rehearseActions sc))))
             else sc_actios sc) \<and>
          sc_idx (fst (rehearseActions sc)) = 0 \<and>
          snd (rehearseActions sc) =
            [ConsoleLog (sc_suggestedActions (fst (rehearseActions sc))),
             LoadActionDetails (sc_suggestedActions (fst (rehearseActions sc))),
             StateGo (ua_id (hd (sc_suggestedActions (fst (rehearseActions sc)))))]))"
proof -
  define chosen where
    "chosen = (if tr_done (sc_toRehearse sc) then toArray (acts_done (sc_actions sc)) else []) @
              (if tr_declined (sc_toRehearse sc) then toArray (acts_declined (sc_actions sc)) else []) @
              (if tr_na (sc_toRehearse sc) then toArray (acts_na (sc_actions sc)) else [])"
  let ?sorted = "sort_key ua_latestDate chosen"
  have unfolded:
    "rehearseActions sc =
       (if chosen = [] then (sc, [AlertNoRehearseActions])
        else (let sc2 = (if length ?sorted > sc_preferredNumberOfActions sc
                         then sc\<lparr>sc_actios := Some (take (sc_preferredNumberOfActions sc) ?sorted)\<rparr>
                         else sc)
                        \<lparr>sc_idx := - 1, sc_lastActionUsed := True, sc_suggestedActions := ?sorted\<rparr>
              in (fst (showNextTip sc2),
                  [ConsoleLog ?sorted, LoadActionDetails ?sorted] @ snd (showNextTip sc2))))"
    unfolding chosen_def
    by (cases "tr_done (sc_toRehearse sc)"; cases "tr_declined (sc_toRehearse sc)";
        cases "tr_na (sc_toRehearse sc)")
      (simp_all add: rehearseActions_def orderBy_def Let_def)
  have empty: "rehearseActions sc = (sc, [AlertNoRehearseActions])" if "chosen = []"
    using that by (simp add: unfolded)
  have nonempty:
    "rehearseActions sc =
       (sc\<lparr>sc_actios := (if sc_preferredNumberOfActions sc < length chosen
                          then Some (take (sc_preferredNumberOfActions sc) ?sorted)
                          else sc_actios sc),
            sc_idx := 0, sc_lastActionUsed := False, sc_suggestedActions := ?sorted\<rparr>,
        [ConsoleLog ?sorted, LoadActionDetails ?sorted, StateGo (ua_id (hd ?sorted))])"
    if "chosen \<noteq> []"
  proof -
    from that have ne: "?sorted \<noteq> []" by (metis length_0_conv length_sort)
    then have "?sorted ! 0 = hd ?sorted" by (simp add: hd_conv_nth)
    with that ne show ?thesis
      by (simp add: unfolded showNextTip_def Let_def)
  qed
  have "(chosen = [] \<longrightarrow> rehearseActions sc = (sc, [AlertNoRehearseActions])) \<and>
       (chosen \<noteq> [] \<longrightarrow>
          sorted (map ua_latestDate (sc_suggestedActions (fst (rehearseActions sc)))) \<and>
          mset (sc_suggestedActions (fst (rehearseActions sc))) = mset chosen \<and>
          length (sc_suggestedActions (fst (rehearseActions sc))) = length chosen \<and>
          sc_actios (fst (rehearseActions sc)) =
            (if sc_preferredNumberOfActions sc < length chosen
             then Some (take (sc_preferredNumberOfActions sc)
                          (sc_suggestedActions (fst (rehearseActions sc))))
             else sc_actios sc) \<and>
          sc_idx (fst (rehearseActions sc)) = 0 \<and>
          snd (rehearseActions sc) =
            [ConsoleLog (sc_suggestedActions (fst (rehearseActions sc))),
             LoadActionDetails (sc_suggestedActions (fst (rehearseActions sc))),
             StateGo (ua_id (hd (sc_suggestedActions (fst (rehearseActions sc)))))])"
  proof (intro conjI impI)
    assume "chosen = []"
    then show "rehearseActions sc = (sc, [AlertNoRehearseActions])" by (rule empty)
  next
    assume ne: "chosen \<noteq> []"
    show "sorted (map ua_latestDate (sc_suggestedActions (fst (rehearseActions sc))))"
      by (simp add: nonempty [OF ne])
    show "mset (sc_suggestedActions (fst (rehearseActions sc))) = mset chosen"
      by (simp add: nonempty [OF ne])
    show "length (sc_suggestedActions (fst (rehearseActions sc))) = length chosen"
      by (simp add: nonempty [OF ne])
    show "sc_actios (fst (rehearseActions sc)) =
            (if sc_preferredNumberOfActions sc < length chosen
             then Some (take (sc_preferredNumberOfActions sc)
                          (sc_suggestedActions (fst (rehearseActions sc))))
             else sc_actios sc)"
      by (simp add: nonempty [OF ne])
    show "sc_idx (fst (rehearseActions sc)) = 0"
      by (simp add: nonempty [OF ne])
    show "snd (rehearseActions sc) =
            [ConsoleLog (sc_suggestedActions (fst (rehearseActions sc))),
             LoadActionDetails (sc_suggestedActions (fst (rehearseActions sc))),
             StateGo (ua_id (hd (sc_suggestedActions (fst (rehearseActions sc)))))]"
      by (simp add: nonempty [OF ne])
  qed
  then show ?thesis unfolding Let_def chosen_def .
qed

theorem rehearseActions_unbounded_witness:
  "map ua_id (sc_suggestedActions (fst (rehearseActions rehearsing)))
     = [''a2'', ''a5'', ''a3'', ''a1''] \<and>
   sc_preferredNumberOfActions rehearsing = 3 \<and>
   map_option (map ua_id) (sc_actios (fst (rehearseActions rehearsing)))
     = Some [''a2'', ''a5'', ''a3''] \<and>
   snd (rehearseActions rehearsing)
     = [ConsoleLog (sc_suggestedActions (fst (rehearseActions rehearsing))),
        LoadActionDetails (sc_suggestedActions (fst (rehearseActions rehearsing))),
        StateGo ''a2''] \<and>
   rehearseActions (rehearsing\<lparr>sc_toRehearse := \<lparr>tr_done = False, tr_declined = False, tr_na = False\<rparr>\<rparr>)
     = (rehearsing\<lparr>sc_toRehearse := \<lparr>tr_done = False, tr_declined = False, tr_na = False\<rparr>\<rparr>,
        [AlertNoRehearseActions])"
  using rehearseActions_unbounded [of rehearsing]
    rehearseActions_unbounded
      [of "rehearsing\<lparr>sc_toRehearse := \<lparr>tr_done = False, tr_declined = False, tr_na = False\<rparr>\<rparr>"]
  by (simp add: rehearseActions_def showNextTip_def orderBy_def toArray_def rehearsing_def
      Let_def)


end
